theory Spec2Isabelle
  imports
    Complex_Main
    "HOL-Library.Sublist"
    "HOL-Library.Char_ord"
    "HOL-Library.List_Lexorder"
    "HOL-Library.Multiset"
begin

section \<open>Python values shared by the services\<close>

text \<open>
  Strings are byte lists in UTF-8, so the icon glyphs of the source are the bytes of
  their encoding. Numbers that the source compares against integer thresholds are
  \<^typ>\<open>real\<close>: the thresholds are small integers, which floating point represents
  exactly, so every comparison of the source is the comparison of the model.
  Exceptions are values of \<open>py_error\<close>, returned as \<open>Inl\<close>.
\<close>

datatype py_error =
    IndexError
  | ZeroDivisionError
  | JSONDecodeError
  | AttributeError
  | APIError

text \<open>
  \<open>str.lower()\<close>: the letters \<open>A\<close> to \<open>Z\<close> move to \<open>a\<close> to \<open>z\<close>. Every other byte
  is kept; the bytes of a non-ASCII character are never ASCII letters, before or after
  Python lowercases the character (the Kelvin sign and the dotted capital I apart,
  which the model leaves as they are).
\<close>

definition lower_char :: "char \<Rightarrow> char" where
  "lower_char c =
     (if CHR ''A'' \<le> c \<and> c \<le> CHR ''Z'' then char_of (of_char c + (32::nat)) else c)"

definition lower :: "string \<Rightarrow> string" where
  "lower s = map lower_char s"


text \<open>Python's true division \<open>a / b\<close>, which raises on a zero divisor.\<close>

definition truediv :: "real \<Rightarrow> real \<Rightarrow> py_error + real" where
  "truediv a b = (if b = 0 then Inl ZeroDivisionError else Inr (a / b))"

section \<open>weather\_service.py: the weather risk classifier\<close>

text \<open>
  The provider's answer as \<open>calculate_health_risks\<close> reads it:
  \<open>weather_data['main']\<close> with its three numbers and the list
  \<open>weather_data['weather']\<close>, of which the first entry's \<open>'main'\<close> text is read.
\<close>

record main_block =
  main_temp :: real
  main_humidity :: real
  main_feels_like :: real

record provider_data =
  main :: main_block
  weather :: "string list"

definition calculate_health_risks :: "provider_data \<Rightarrow> py_error + (string \<rightharpoonup> string)" where
  "calculate_health_risks weather_data =
     (let temp = main_temp (main weather_data);
          humidity = main_humidity (main weather_data);
          feels_like = main_feels_like (main weather_data);
          risks = Map.empty;
          risks =
            (if feels_like > 35 then risks(''heat_stress'' \<mapsto> ''high'')
             else if feels_like > 30 then risks(''heat_stress'' \<mapsto> ''moderate'')
             else risks(''heat_stress'' \<mapsto> ''low''))
      in case weather weather_data of
           [] \<Rightarrow> Inl IndexError
         | first_main # _ \<Rightarrow>
             (let weather_main = lower first_main;
                  risks =
                    (if sublist ''clear'' weather_main \<and> temp > 25
                       then risks(''uv_risk'' \<mapsto> ''high'')
                     else if temp > 20 then risks(''uv_risk'' \<mapsto> ''moderate'')
                     else risks(''uv_risk'' \<mapsto> ''low''));
                  risks =
                    (if humidity > 80 then risks(''air_quality'' \<mapsto> ''poor'')
                     else if humidity > 60 then risks(''air_quality'' \<mapsto> ''moderate'')
                     else risks(''air_quality'' \<mapsto> ''good''));
                  risks =
                    (if temp > 32 \<or> (temp > 28 \<and> humidity > 70)
                       then risks(''dehydration_risk'' \<mapsto> ''high'')
                     else if temp > 25 then risks(''dehydration_risk'' \<mapsto> ''moderate'')
                     else risks(''dehydration_risk'' \<mapsto> ''low''))
              in Inr risks))"

section \<open>weather\_service.py: the alert generator\<close>

text \<open>
  The weather snapshot as the generators read it: \<open>weather_data['current']\<close> with its
  \<open>temp\<close> and \<open>humidity\<close>, and \<open>weather_data['risk_indicators']\<close>. A key that the
  dictionary lacks is \<open>None\<close>. The parameter \<open>weather_data\<close> is \<open>None\<close> when the
  Python value is falsy (\<open>None\<close> or the empty dictionary the handlers pass for it).
\<close>

record current_block =
  current_temp :: "real option"
  current_humidity :: "real option"

record weather_snapshot =
  current :: "current_block option"
  risk_indicators :: "(string \<rightharpoonup> string) option"

text \<open>One entry of \<open>lifestyle_logs_db\<close>, as \<open>LifestyleLog.create\<close> stores it.\<close>

record lifestyle_log =
  log_id :: int
  user_id :: int
  date :: string
  sleep_hours :: real
  exercise_minutes :: int
  water_glasses :: int
  meals :: string
  log_notes :: string
  created_at :: string

record alert =
  type :: string
  title :: string
  message :: string
  icon :: string

text \<open>\<open>d.get(key, default)\<close> on a key that may be absent.\<close>

definition get_or :: "'a \<Rightarrow> 'a option \<Rightarrow> 'a" where
  "get_or dflt v = (case v of None \<Rightarrow> dflt | Some x \<Rightarrow> x)"

text \<open>
  \<open>sum(log[field] for log in recent_logs[:k]) / min(len(recent_logs), k)\<close>, the
  average the generators take over the first \<open>k\<close> logs.
\<close>

definition avg_over :: "nat \<Rightarrow> (lifestyle_log \<Rightarrow> real) \<Rightarrow> lifestyle_log list \<Rightarrow> py_error + real" where
  "avg_over k field recent_logs =
     truediv (sum_list (map field (take k recent_logs))) (real (min (length recent_logs) k))"

definition extreme_heat_alert :: alert where
  "extreme_heat_alert = \<lparr>
     type = ''warning'',
     title = ''Extreme Heat Alert'',
     message = ''Very high temperatures detected. Stay indoors, drink plenty of water, and avoid strenuous outdoor activities.'',
     icon = [CHR 0xF0, CHR 0x9F, CHR 0x8C, CHR 0xA1, CHR 0xEF, CHR 0xB8, CHR 0x8F] \<rparr>"

definition heat_advisory :: alert where
  "heat_advisory = \<lparr>
     type = ''caution'',
     title = ''Heat Advisory'',
     message = ''High temperatures today. Stay hydrated and take breaks if working outdoors.'',
     icon = [CHR 0xE2, CHR 0x98, CHR 0x80, CHR 0xEF, CHR 0xB8, CHR 0x8F] \<rparr>"

definition high_humidity_alert :: alert where
  "high_humidity_alert = \<lparr>
     type = ''info'',
     title = ''High Humidity Alert'',
     message = ''Very humid conditions may affect breathing and increase heat stress. Stay cool and hydrated.'',
     icon = [CHR 0xF0, CHR 0x9F, CHR 0x92, CHR 0xA8] \<rparr>"

definition dehydration_risk_alert :: alert where
  "dehydration_risk_alert = \<lparr>
     type = ''warning'',
     title = ''Dehydration Risk'',
     message = ''Weather conditions increase dehydration risk. Drink water regularly, even if you don't feel thirsty.'',
     icon = [CHR 0xF0, CHR 0x9F, CHR 0x92, CHR 0xA7] \<rparr>"

definition high_uv_index :: alert where
  "high_uv_index = \<lparr>
     type = ''caution'',
     title = ''High UV Index'',
     message = ''Strong UV radiation today. Use sunscreen, wear protective clothing, and seek shade during peak hours.'',
     icon = [CHR 0xF0, CHR 0x9F, CHR 0xA7, CHR 0xB4] \<rparr>"

definition air_quality_advisory :: alert where
  "air_quality_advisory = \<lparr>
     type = ''caution'',
     title = ''Air Quality Advisory'',
     message = ''Poor air quality conditions. Consider limiting outdoor activities, especially if you have respiratory issues.'',
     icon = [CHR 0xF0, CHR 0x9F, CHR 0x98, CHR 0xB7] \<rparr>"

definition exercise_adjustment :: alert where
  "exercise_adjustment = \<lparr>
     type = ''info'',
     title = ''Exercise Adjustment'',
     message = ''Consider indoor workouts or exercising during cooler hours due to high temperatures.'',
     icon = [CHR 0xF0, CHR 0x9F, CHR 0x8F, CHR 0x83, CHR 0xE2, CHR 0x80, CHR 0x8D,
             CHR 0xE2, CHR 0x99, CHR 0x82, CHR 0xEF, CHR 0xB8, CHR 0x8F] \<rparr>"

definition cool_weather_reminder :: alert where
  "cool_weather_reminder = \<lparr>
     type = ''info'',
     title = ''Cool Weather Reminder'',
     message = ''Cooler temperatures - ensure adequate vitamin D intake and maintain your exercise routine.'',
     icon = [CHR 0xF0, CHR 0x9F, CHR 0xA7, CHR 0xA5] \<rparr>"

text \<open>
  \<open>get_health_alerts\<close>: the list \<open>alerts\<close> is threaded through the conditions in the
  source's order. \<open>user\<close> and \<open>profile\<close> are not read.
\<close>

definition get_health_alerts ::
    "'u \<Rightarrow> 'p \<Rightarrow> lifestyle_log list \<Rightarrow> weather_snapshot option \<Rightarrow> py_error + alert list" where
  "get_health_alerts user profile recent_logs weather_data =
     (let alerts = [] in
      case weather_data of
        None \<Rightarrow> Inr alerts
      | Some wd \<Rightarrow>
          (let risks = get_or Map.empty (risk_indicators wd);
               temp = (case current wd of None \<Rightarrow> 25 | Some c \<Rightarrow> get_or 25 (current_temp c));
               humidity = (case current wd of None \<Rightarrow> 50 | Some c \<Rightarrow> get_or 50 (current_humidity c));
               alerts =
                 (if temp > 35 then alerts @ [extreme_heat_alert]
                  else if temp > 30 then alerts @ [heat_advisory]
                  else alerts);
               alerts = (if humidity > 85 then alerts @ [high_humidity_alert] else alerts);
               alerts =
                 (if risks ''dehydration_risk'' = Some ''high''
                  then alerts @ [dehydration_risk_alert] else alerts);
               alerts =
                 (if risks ''uv_risk'' = Some ''high'' then alerts @ [high_uv_index] else alerts);
               alerts =
                 (if risks ''air_quality'' = Some ''poor''
                  then alerts @ [air_quality_advisory] else alerts)
           in case (if recent_logs \<noteq> [] then
                      (case avg_over 3 (\<lambda>log. real_of_int (exercise_minutes log)) recent_logs of
                         Inl e \<Rightarrow> Inl e
                       | Inr avg_exercise \<Rightarrow>
                           Inr (if avg_exercise > 60 \<and> temp > 30
                                then alerts @ [exercise_adjustment] else alerts))
                    else Inr alerts) of
                Inl e \<Rightarrow> Inl e
              | Inr alerts \<Rightarrow>
                  Inr (if temp < 20 then alerts @ [cool_weather_reminder] else alerts)))"

section \<open>openai\_service.py: the rule-based tip generator\<close>

definition low_sleep_tip :: string where
  "low_sleep_tip = [CHR 0xF0, CHR 0x9F, CHR 0x92, CHR 0xA4] @
     '' Try to get 7-9 hours of sleep nightly for better health and immunity.''"

definition over_sleep_tip :: string where
  "over_sleep_tip = [CHR 0xF0, CHR 0x9F, CHR 0x92, CHR 0xA4] @
     '' Consider maintaining a consistent sleep schedule - too much sleep can also affect energy levels.''"

definition generic_sleep_tip :: string where
  "generic_sleep_tip = [CHR 0xF0, CHR 0x9F, CHR 0x92, CHR 0xA4] @
     '' Maintain a regular sleep schedule of 7-9 hours for optimal health.''"

definition low_activity_tip :: string where
  "low_activity_tip =
     [CHR 0xF0, CHR 0x9F, CHR 0x8F, CHR 0x83, CHR 0xE2, CHR 0x80, CHR 0x8D,
      CHR 0xE2, CHR 0x99, CHR 0x82, CHR 0xEF, CHR 0xB8, CHR 0x8F] @
     '' Aim for at least 30 minutes of physical activity daily to boost your cardiovascular health.''"

definition generic_activity_tip :: string where
  "generic_activity_tip =
     [CHR 0xF0, CHR 0x9F, CHR 0x8F, CHR 0x83, CHR 0xE2, CHR 0x80, CHR 0x8D,
      CHR 0xE2, CHR 0x99, CHR 0x82, CHR 0xEF, CHR 0xB8, CHR 0x8F] @
     '' Regular exercise is key to maintaining good health - aim for 150 minutes per week.''"

definition hydration_tip :: string where
  "hydration_tip = [CHR 0xF0, CHR 0x9F, CHR 0x92, CHR 0xA7] @
     '' Stay hydrated by drinking at least 8 glasses of water daily.''"

definition generic_hydration_tip :: string where
  "generic_hydration_tip = [CHR 0xF0, CHR 0x9F, CHR 0x92, CHR 0xA7] @
     '' Proper hydration is essential - aim for 8-10 glasses of water daily.''"

definition heat_tip :: string where
  "heat_tip = [CHR 0xE2, CHR 0x98, CHR 0x80, CHR 0xEF, CHR 0xB8, CHR 0x8F] @
     '' High temperatures detected - stay cool, drink extra water, and avoid outdoor activities during peak hours.''"

definition cold_tip :: string where
  "cold_tip = [CHR 0xE2, CHR 0x9D, CHR 0x84, CHR 0xEF, CHR 0xB8, CHR 0x8F] @
     '' Cool weather - dress warmly and maintain your immune system with proper nutrition.''"

definition humidity_tip :: string where
  "humidity_tip = [CHR 0xF0, CHR 0x9F, CHR 0x92, CHR 0xA8] @
     '' High humidity levels - be aware of increased risk of heat-related stress and dehydration.''"

text \<open>The list that \<open>tips.extend\<close> appends under \<open># General wellness tips\<close>.\<close>

definition general_wellness_tips :: "string list" where
  "general_wellness_tips =
     [ [CHR 0xF0, CHR 0x9F, CHR 0xA5, CHR 0x97] @
         '' Include plenty of fruits and vegetables in your diet for essential vitamins and minerals.'',
       [CHR 0xF0, CHR 0x9F, CHR 0xA7, CHR 0x98, CHR 0xE2, CHR 0x80, CHR 0x8D,
        CHR 0xE2, CHR 0x99, CHR 0x80, CHR 0xEF, CHR 0xB8, CHR 0x8F] @
         '' Practice stress management techniques like meditation or deep breathing exercises.'',
       [CHR 0xF0, CHR 0x9F, CHR 0x91, CHR 0xA9, CHR 0xE2, CHR 0x80, CHR 0x8D,
        CHR 0xE2, CHR 0x9A, CHR 0x95, CHR 0xEF, CHR 0xB8, CHR 0x8F] @
         '' Schedule regular health check-ups and screenings for preventive care.'' ]"

text \<open>
  The four commented blocks of \<open>get_fallback_health_tips\<close>, each taking the list
  \<open>tips\<close> built so far and returning it with what the block appends.
\<close>

definition sleep_tips :: "lifestyle_log list \<Rightarrow> string list \<Rightarrow> py_error + string list" where
  "sleep_tips recent_logs tips =
     (if recent_logs \<noteq> [] then
        (case avg_over 7 sleep_hours recent_logs of
           Inl e \<Rightarrow> Inl e
         | Inr avg_sleep \<Rightarrow>
             Inr (if avg_sleep < 7 then tips @ [low_sleep_tip]
                  else if avg_sleep > 9 then tips @ [over_sleep_tip]
                  else tips))
      else Inr (tips @ [generic_sleep_tip]))"

definition exercise_tips :: "lifestyle_log list \<Rightarrow> string list \<Rightarrow> py_error + string list" where
  "exercise_tips recent_logs tips =
     (if recent_logs \<noteq> [] then
        (case avg_over 7 (\<lambda>log. real_of_int (exercise_minutes log)) recent_logs of
           Inl e \<Rightarrow> Inl e
         | Inr avg_exercise \<Rightarrow>
             Inr (if avg_exercise < 30 then tips @ [low_activity_tip] else tips))
      else Inr (tips @ [generic_activity_tip]))"

definition hydration_tips :: "lifestyle_log list \<Rightarrow> string list \<Rightarrow> py_error + string list" where
  "hydration_tips recent_logs tips =
     (if recent_logs \<noteq> [] then
        (case avg_over 7 (\<lambda>log. real_of_int (water_glasses log)) recent_logs of
           Inl e \<Rightarrow> Inl e
         | Inr avg_water \<Rightarrow>
             Inr (if avg_water < 8 then tips @ [hydration_tip] else tips))
      else Inr (tips @ [generic_hydration_tip]))"

definition weather_tips :: "weather_snapshot option \<Rightarrow> string list \<Rightarrow> string list" where
  "weather_tips weather_data tips =
     (case weather_data of
        None \<Rightarrow> tips
      | Some wd \<Rightarrow>
          (case current wd of
             None \<Rightarrow> tips
           | Some c \<Rightarrow>
               (let temp = get_or 25 (current_temp c);
                    humidity = get_or 50 (current_humidity c);
                    tips =
                      (if temp > 30 then tips @ [heat_tip]
                       else if temp < 15 then tips @ [cold_tip]
                       else tips)
                in if humidity > 80 then tips @ [humidity_tip] else tips)))"

text \<open>The list \<open>tips\<close> when control reaches \<open># General wellness tips\<close>.\<close>

definition personalized_tips ::
    "lifestyle_log list \<Rightarrow> weather_snapshot option \<Rightarrow> py_error + string list" where
  "personalized_tips recent_logs weather_data =
     (case sleep_tips recent_logs [] of
        Inl e \<Rightarrow> Inl e
      | Inr tips \<Rightarrow>
          (case exercise_tips recent_logs tips of
             Inl e \<Rightarrow> Inl e
           | Inr tips \<Rightarrow>
               (case hydration_tips recent_logs tips of
                  Inl e \<Rightarrow> Inl e
                | Inr tips \<Rightarrow> Inr (weather_tips weather_data tips))))"

definition get_fallback_health_tips ::
    "'u \<Rightarrow> 'p \<Rightarrow> lifestyle_log list \<Rightarrow> weather_snapshot option \<Rightarrow> py_error + string list" where
  "get_fallback_health_tips user profile recent_logs weather_data =
     (case personalized_tips recent_logs weather_data of
        Inl e \<Rightarrow> Inl e
      | Inr tips \<Rightarrow> Inr (take 5 (tips @ general_wellness_tips)))"

section \<open>openai\_service.py: the chat fallback\<close>








section \<open>openai\_service.py: the AI gateway\<close>

text \<open>
  What \<open>json.loads\<close> returns: a Python value built from JSON. The gateway hands such
  a value back to its caller, so the rule-based tips are embedded in the same type by
  \<open>tips_value\<close>.
\<close>

datatype json =
    JNull
  | JBool bool
  | JNum real
  | JStr string
  | JArr "json list"
  | JObj "(string \<times> json) list"








section \<open>models.py: reading a user's logs\<close>

text \<open>
  \<open>sorted(xs, key=..., reverse=True)\<close>: Python reverses the list, sorts it stably by the
  key, and reverses the result, so that entries with equal keys keep their order.
  Dates are strings, compared as Python compares them.
\<close>

definition sorted_reverse :: "('a \<Rightarrow> 'k::linorder) \<Rightarrow> 'a list \<Rightarrow> 'a list" where
  "sorted_reverse key xs = rev (sort_key key (rev xs))"

text \<open>
  \<open>LifestyleLog.get_by_user_id\<close>, with the module's \<open>lifestyle_logs_db\<close> as its first
  argument; \<open>limit\<close> is \<open>None\<close> when the caller leaves it out.
\<close>

definition get_by_user_id ::
    "(int \<rightharpoonup> lifestyle_log list) \<Rightarrow> int \<Rightarrow> int option \<Rightarrow> lifestyle_log list" where
  "get_by_user_id lifestyle_logs_db uid limit =
     (case lifestyle_logs_db uid of
        None \<Rightarrow> []
      | Some user_logs \<Rightarrow>
          (let logs = sorted_reverse date user_logs in
           case limit of
             None \<Rightarrow> logs
           | Some n \<Rightarrow> if n \<noteq> 0 \<and> n > 0 then take (nat n) logs else logs))"

section \<open>Example inputs\<close>

definition example_log :: "string \<Rightarrow> real \<Rightarrow> int \<Rightarrow> int \<Rightarrow> lifestyle_log" where
  "example_log day slept exercised drank =
     \<lparr>log_id = 1, user_id = 1, date = day, sleep_hours = slept, exercise_minutes = exercised,
      water_glasses = drank, meals = ''rice and beans'', log_notes = [],
      created_at = day @ ''T20:00:00''\<rparr>"

definition example_weather :: "real \<Rightarrow> real \<Rightarrow> (string \<rightharpoonup> string) \<Rightarrow> weather_snapshot" where
  "example_weather t h risks =
     \<lparr>current = Some \<lparr>current_temp = Some t, current_humidity = Some h\<rparr>,
      risk_indicators = Some risks\<rparr>"

section \<open>Facts shared by the proofs\<close>

lemma lower_char_Char:
  "lower_char (Char b0 b1 b2 b3 b4 b5 b6 b7) =
     (if CHR ''A'' \<le> Char b0 b1 b2 b3 b4 b5 b6 b7 \<and> Char b0 b1 b2 b3 b4 b5 b6 b7 \<le> CHR ''Z''
      then Char b0 b1 b2 b3 b4 True b6 b7
      else Char b0 b1 b2 b3 b4 b5 b6 b7)"
  unfolding lower_char_def
  by (auto simp add: char_of_eq_iff less_eq_char_def simp del: less_eq_char_simp)

lemma avg_over_nonempty:
  assumes "recent_logs \<noteq> []" and "0 < k"
  shows "avg_over k field recent_logs =
           Inr (sum_list (map field (take k recent_logs)) / real (min (length recent_logs) k))"
proof -
  from assms have "min (length recent_logs) k \<noteq> 0" by (cases recent_logs) auto
  then show ?thesis by (simp add: avg_over_def truediv_def)
qed

lemma avg_over_empty: "avg_over k field [] = Inl ZeroDivisionError"
  by (simp add: avg_over_def truediv_def)

subsection \<open>The alert generator\<close>

text \<open>
  With weather present the alerts are seven optional entries in the source's order; the
  division of the exercise average never fails, since it is taken of a non-empty list.
\<close>

lemma alerts_shape:
  "get_health_alerts user profile recent_logs (Some wd) =
     (let risks = get_or Map.empty (risk_indicators wd);
          temp = (case current wd of None \<Rightarrow> 25 | Some c \<Rightarrow> get_or 25 (current_temp c));
          humidity = (case current wd of None \<Rightarrow> 50 | Some c \<Rightarrow> get_or 50 (current_humidity c))
      in Inr ((if temp > 35 then [extreme_heat_alert]
               else if temp > 30 then [heat_advisory] else [])
         @ (if humidity > 85 then [high_humidity_alert] else [])
         @ (if risks ''dehydration_risk'' = Some ''high'' then [dehydration_risk_alert] else [])
         @ (if risks ''uv_risk'' = Some ''high'' then [high_uv_index] else [])
         @ (if risks ''air_quality'' = Some ''poor'' then [air_quality_advisory] else [])
         @ (if recent_logs \<noteq> []
               \<and> sum_list (map (\<lambda>log. real_of_int (exercise_minutes log)) (take 3 recent_logs))
                   / real (min (length recent_logs) 3) > 60
               \<and> temp > 30
            then [exercise_adjustment] else [])
         @ (if temp < 20 then [cool_weather_reminder] else [])))"
proof (cases "recent_logs = []")
  case True
  then show ?thesis by (simp add: get_health_alerts_def Let_def)
next
  case False
  then show ?thesis
    by (simp add: get_health_alerts_def Let_def avg_over_nonempty)
qed

lemma alert_titles:
  "title extreme_heat_alert = ''Extreme Heat Alert''"
  "title heat_advisory = ''Heat Advisory''"
  "title high_humidity_alert = ''High Humidity Alert''"
  "title dehydration_risk_alert = ''Dehydration Risk''"
  "title high_uv_index = ''High UV Index''"
  "title air_quality_advisory = ''Air Quality Advisory''"
  "title exercise_adjustment = ''Exercise Adjustment''"
  "title cool_weather_reminder = ''Cool Weather Reminder''"
  by (simp_all add: extreme_heat_alert_def heat_advisory_def high_humidity_alert_def
      dehydration_risk_alert_def high_uv_index_def air_quality_advisory_def
      exercise_adjustment_def cool_weather_reminder_def)

lemma alert_types:
  "type extreme_heat_alert = ''warning''"
  "type heat_advisory = ''caution''"
  "type high_humidity_alert = ''info''"
  "type dehydration_risk_alert = ''warning''"
  "type high_uv_index = ''caution''"
  "type air_quality_advisory = ''caution''"
  "type exercise_adjustment = ''info''"
  "type cool_weather_reminder = ''info''"
  by (simp_all add: extreme_heat_alert_def heat_advisory_def high_humidity_alert_def
      dehydration_risk_alert_def high_uv_index_def air_quality_advisory_def
      exercise_adjustment_def cool_weather_reminder_def)

section \<open>The alert generator: claims\<close>



text \<open>
  Claim C3. With \<open>temp = 36\<close>, \<open>humidity = 90\<close>, the risk indicators \<open>uv_risk = high\<close>,
  \<open>air_quality = poor\<close>, \<open>dehydration_risk = high\<close>, and three recent logs whose exercise
  minutes average 70, \<open>get_health_alerts\<close> returns exactly six alerts in this order:
  Extreme Heat Alert (warning), High Humidity Alert (info), Dehydration Risk (warning),
  High UV Index (caution), Air Quality Advisory (caution), Exercise Adjustment (info).
  Heat Advisory is not among them.
\<close>

theorem alerts_example:
  assumes "length recent_logs = 3"
    and "avg_over 3 (\<lambda>log. real_of_int (exercise_minutes log)) recent_logs = Inr 70"
    and "risks ''uv_risk'' = Some ''high''"
    and "risks ''air_quality'' = Some ''poor''"
    and "risks ''dehydration_risk'' = Some ''high''"
  shows "get_health_alerts user profile recent_logs (Some (example_weather 36 90 risks))
         = Inr [extreme_heat_alert, high_humidity_alert, dehydration_risk_alert, high_uv_index,
                air_quality_advisory, exercise_adjustment]
       \<and> map (\<lambda>a. (title a, type a))
           [extreme_heat_alert, high_humidity_alert, dehydration_risk_alert, high_uv_index,
            air_quality_advisory, exercise_adjustment]
         = [(''Extreme Heat Alert'', ''warning''), (''High Humidity Alert'', ''info''),
            (''Dehydration Risk'', ''warning''), (''High UV Index'', ''caution''),
            (''Air Quality Advisory'', ''caution''), (''Exercise Adjustment'', ''info'')]
       \<and> ''Heat Advisory'' \<notin> set (map title [extreme_heat_alert, high_humidity_alert,
            dehydration_risk_alert, high_uv_index, air_quality_advisory, exercise_adjustment])"
proof -
  from assms(1) have ne: "recent_logs \<noteq> []" by auto
  from assms(2)
  have avg: "sum_list (map (\<lambda>log. real_of_int (exercise_minutes log)) (take 3 recent_logs))
               / real (min (length recent_logs) 3) = 70"
    by (simp add: avg_over_nonempty [OF ne])
  have r: "get_health_alerts user profile recent_logs (Some (example_weather 36 90 risks))
         = Inr [extreme_heat_alert, high_humidity_alert, dehydration_risk_alert, high_uv_index,
                air_quality_advisory, exercise_adjustment]"
    unfolding alerts_shape Let_def
    using ne assms(3-5) by (simp add: get_or_def avg example_weather_def)
  have d: "''Heat Advisory'' \<notin> set (map title [extreme_heat_alert, high_humidity_alert,
            dehydration_risk_alert, high_uv_index, air_quality_advisory, exercise_adjustment])"
    by (simp add: alert_titles)
  show ?thesis using r d by (simp add: alert_titles alert_types)
qed

theorem alerts_example_witness:
  "get_health_alerts () ()
     [example_log ''2025-06-03'' 7 60 8, example_log ''2025-06-02'' 7 70 8,
      example_log ''2025-06-01'' 7 80 8]
     (Some (example_weather 36 90
        [''uv_risk'' \<mapsto> ''high'', ''air_quality'' \<mapsto> ''poor'', ''dehydration_risk'' \<mapsto> ''high'']))
   = Inr [extreme_heat_alert, high_humidity_alert, dehydration_risk_alert, high_uv_index,
          air_quality_advisory, exercise_adjustment]"
proof -
  have "avg_over 3 (\<lambda>log. real_of_int (exercise_minutes log))
          [example_log ''2025-06-03'' 7 60 8, example_log ''2025-06-02'' 7 70 8,
           example_log ''2025-06-01'' 7 80 8] = Inr 70"
    by (simp add: avg_over_def truediv_def example_log_def)
  from alerts_example [OF _ this, of
      "[''uv_risk'' \<mapsto> ''high'', ''air_quality'' \<mapsto> ''poor'', ''dehydration_risk'' \<mapsto> ''high'']"
      "()" "()"]
  show ?thesis by simp
qed

section \<open>The weather risk classifier: claims\<close>

lemma if_map_upd:
  "(if c then m(k \<mapsto> a) else m(k \<mapsto> b)) = m(k \<mapsto> (if c then a else b))"
  by simp

lemma risks_shape:
  "calculate_health_risks
     \<lparr>main = \<lparr>main_temp = temp, main_humidity = humidity, main_feels_like = feels_like\<rparr>,
      weather = description # others\<rparr>
   = Inr [''heat_stress'' \<mapsto>
            (if feels_like > 35 then ''high'' else if feels_like > 30 then ''moderate'' else ''low''),
          ''uv_risk'' \<mapsto>
            (if sublist ''clear'' (lower description) \<and> temp > 25 then ''high''
             else if temp > 20 then ''moderate'' else ''low''),
          ''air_quality'' \<mapsto>
            (if humidity > 80 then ''poor'' else if humidity > 60 then ''moderate'' else ''good''),
          ''dehydration_risk'' \<mapsto>
            (if temp > 32 \<or> (temp > 28 \<and> humidity > 70) then ''high''
             else if temp > 25 then ''moderate'' else ''low'')]"
  unfolding calculate_health_risks_def Let_def
  by (simp only: if_map_upd provider_data.simps main_block.simps list.case)

text \<open>
  Claim C1, as amended. For every temperature, feels-like temperature, humidity and
  weather description (the \<open>main\<close> text of the first weather entry),
  \<open>calculate_health_risks\<close> returns the four risk levels, and nothing else, fixed by
  strict thresholds: \<open>heat_stress\<close> is high iff \<open>feels_like > 35\<close>, moderate iff
  \<open>30 < feels_like \<le> 35\<close>, else low; \<open>uv_risk\<close> is high iff the description,
  lowercased, contains \<open>clear\<close> and \<open>temp > 25\<close>, moderate iff not that and
  \<open>temp > 20\<close>, else low; \<open>air_quality\<close> is poor iff \<open>humidity > 80\<close>, moderate iff
  \<open>60 < humidity \<le> 80\<close>, else good; \<open>dehydration_risk\<close> is high iff \<open>temp > 32\<close> or
  (\<open>temp > 28\<close> and \<open>humidity > 70\<close>), moderate iff not that and \<open>temp > 25\<close>, else low.
  A value exactly on a threshold falls to the lower level.
\<close>

theorem risk_levels:
  "\<exists>risks.
     calculate_health_risks
       \<lparr>main = \<lparr>main_temp = temp, main_humidity = humidity, main_feels_like = feels_like\<rparr>,
        weather = description # others\<rparr> = Inr risks
     \<and> dom risks = {''heat_stress'', ''uv_risk'', ''air_quality'', ''dehydration_risk''}
     \<and> (risks ''heat_stress'' = Some ''high'' \<longleftrightarrow> feels_like > 35)
     \<and> (risks ''heat_stress'' = Some ''moderate'' \<longleftrightarrow> 30 < feels_like \<and> feels_like \<le> 35)
     \<and> (risks ''heat_stress'' = Some ''low'' \<longleftrightarrow> feels_like \<le> 30)
     \<and> (risks ''uv_risk'' = Some ''high'' \<longleftrightarrow> sublist ''clear'' (lower description) \<and> temp > 25)
     \<and> (risks ''uv_risk'' = Some ''moderate'' \<longleftrightarrow>
            \<not> (sublist ''clear'' (lower description) \<and> temp > 25) \<and> temp > 20)
     \<and> (risks ''uv_risk'' = Some ''low'' \<longleftrightarrow> temp \<le> 20)
     \<and> (risks ''air_quality'' = Some ''poor'' \<longleftrightarrow> humidity > 80)
     \<and> (risks ''air_quality'' = Some ''moderate'' \<longleftrightarrow> 60 < humidity \<and> humidity \<le> 80)
     \<and> (risks ''air_quality'' = Some ''good'' \<longleftrightarrow> humidity \<le> 60)
     \<and> (risks ''dehydration_risk'' = Some ''high'' \<longleftrightarrow> temp > 32 \<or> (temp > 28 \<and> humidity > 70))
     \<and> (risks ''dehydration_risk'' = Some ''moderate'' \<longleftrightarrow>
            \<not> (temp > 32 \<or> (temp > 28 \<and> humidity > 70)) \<and> temp > 25)
     \<and> (risks ''dehydration_risk'' = Some ''low'' \<longleftrightarrow> temp \<le> 25)"
proof -
  define H where "H = (if feels_like > 35 then ''high''
                       else if feels_like > 30 then ''moderate'' else ''low'')"
  define U where "U = (if sublist ''clear'' (lower description) \<and> temp > 25 then ''high''
                       else if temp > 20 then ''moderate'' else ''low'')"
  define A where "A = (if humidity > 80 then ''poor''
                       else if humidity > 60 then ''moderate'' else ''good'')"
  define D where "D = (if temp > 32 \<or> (temp > 28 \<and> humidity > 70) then ''high''
                       else if temp > 25 then ''moderate'' else ''low'')"
  define r where "r = [''heat_stress'' \<mapsto> H, ''uv_risk'' \<mapsto> U, ''air_quality'' \<mapsto> A,
                       ''dehydration_risk'' \<mapsto> D]"
  have shape: "calculate_health_risks
       \<lparr>main = \<lparr>main_temp = temp, main_humidity = humidity, main_feels_like = feels_like\<rparr>,
        weather = description # others\<rparr> = Inr r"
    unfolding r_def H_def U_def A_def D_def by (rule risks_shape)
  have d: "dom r = {''heat_stress'', ''uv_risk'', ''air_quality'', ''dehydration_risk''}"
    unfolding r_def by (simp add: insert_commute)
  have h: "r ''heat_stress'' = Some H" and u: "r ''uv_risk'' = Some U"
    and a: "r ''air_quality'' = Some A" and y: "r ''dehydration_risk'' = Some D"
    unfolding r_def by simp_all
  have h1: "r ''heat_stress'' = Some ''high'' \<longleftrightarrow> feels_like > 35"
    and h2: "r ''heat_stress'' = Some ''moderate'' \<longleftrightarrow> 30 < feels_like \<and> feels_like \<le> 35"
    and h3: "r ''heat_stress'' = Some ''low'' \<longleftrightarrow> feels_like \<le> 30"
    unfolding h H_def by simp_all
  have u1: "r ''uv_risk'' = Some ''high'' \<longleftrightarrow> sublist ''clear'' (lower description) \<and> temp > 25"
    and u2: "r ''uv_risk'' = Some ''moderate'' \<longleftrightarrow>
            \<not> (sublist ''clear'' (lower description) \<and> temp > 25) \<and> temp > 20"
    and u3: "r ''uv_risk'' = Some ''low'' \<longleftrightarrow> temp \<le> 20"
    unfolding u U_def by auto
  have a1: "r ''air_quality'' = Some ''poor'' \<longleftrightarrow> humidity > 80"
    and a2: "r ''air_quality'' = Some ''moderate'' \<longleftrightarrow> 60 < humidity \<and> humidity \<le> 80"
    and a3: "r ''air_quality'' = Some ''good'' \<longleftrightarrow> humidity \<le> 60"
    unfolding a A_def by simp_all
  have y1: "r ''dehydration_risk'' = Some ''high'' \<longleftrightarrow> temp > 32 \<or> (temp > 28 \<and> humidity > 70)"
    and y2: "r ''dehydration_risk'' = Some ''moderate'' \<longleftrightarrow>
            \<not> (temp > 32 \<or> (temp > 28 \<and> humidity > 70)) \<and> temp > 25"
    and y3: "r ''dehydration_risk'' = Some ''low'' \<longleftrightarrow> temp \<le> 25"
    unfolding y D_def by auto
  show ?thesis
    by (intro exI [of _ r] conjI) (fact shape d h1 h2 h3 u1 u2 u3 a1 a2 a3 y1 y2 y3)+
qed

text \<open>At the thresholds 35, 25, 80, then 30, 20, 60, then 32 with 70: the lower level each time.\<close>

theorem risk_levels_witness:
  "(\<exists>risks.
      calculate_health_risks
        \<lparr>main = \<lparr>main_temp = 25, main_humidity = 80, main_feels_like = 35\<rparr>,
         weather = [''Clear'']\<rparr> = Inr risks
      \<and> risks ''heat_stress'' = Some ''moderate'' \<and> risks ''uv_risk'' = Some ''moderate''
      \<and> risks ''air_quality'' = Some ''moderate'' \<and> risks ''dehydration_risk'' = Some ''low'')
   \<and> (\<exists>risks.
      calculate_health_risks
        \<lparr>main = \<lparr>main_temp = 20, main_humidity = 60, main_feels_like = 30\<rparr>,
         weather = [''Clouds'']\<rparr> = Inr risks
      \<and> risks ''heat_stress'' = Some ''low'' \<and> risks ''uv_risk'' = Some ''low''
      \<and> risks ''air_quality'' = Some ''good'' \<and> risks ''dehydration_risk'' = Some ''low'')
   \<and> (\<exists>risks.
      calculate_health_risks
        \<lparr>main = \<lparr>main_temp = 32, main_humidity = 70, main_feels_like = 36\<rparr>,
         weather = [''Rain'']\<rparr> = Inr risks
      \<and> risks ''heat_stress'' = Some ''high'' \<and> risks ''uv_risk'' = Some ''moderate''
      \<and> risks ''air_quality'' = Some ''moderate'' \<and> risks ''dehydration_risk'' = Some ''moderate'')"
proof (intro conjI)
  have r: "\<not> sublist ''clear'' (lower ''Rain'')"
    by (simp add: lower_def lower_char_Char sublist_code)
  show "\<exists>risks.
      calculate_health_risks
        \<lparr>main = \<lparr>main_temp = 25, main_humidity = 80, main_feels_like = 35\<rparr>,
         weather = [''Clear'']\<rparr> = Inr risks
      \<and> risks ''heat_stress'' = Some ''moderate'' \<and> risks ''uv_risk'' = Some ''moderate''
      \<and> risks ''air_quality'' = Some ''moderate'' \<and> risks ''dehydration_risk'' = Some ''low''"
    using risk_levels [of 25 80 35 "''Clear''" "[]"] by simp
      (elim exE conjE, intro exI conjI, assumption+)
  show "\<exists>risks.
      calculate_health_risks
        \<lparr>main = \<lparr>main_temp = 20, main_humidity = 60, main_feels_like = 30\<rparr>,
         weather = [''Clouds'']\<rparr> = Inr risks
      \<and> risks ''heat_stress'' = Some ''low'' \<and> risks ''uv_risk'' = Some ''low''
      \<and> risks ''air_quality'' = Some ''good'' \<and> risks ''dehydration_risk'' = Some ''low''"
    using risk_levels [of 20 60 30 "''Clouds''" "[]"] by simp
      (elim exE conjE, intro exI conjI, assumption+)
  show "\<exists>risks.
      calculate_health_risks
        \<lparr>main = \<lparr>main_temp = 32, main_humidity = 70, main_feels_like = 36\<rparr>,
         weather = [''Rain'']\<rparr> = Inr risks
      \<and> risks ''heat_stress'' = Some ''high'' \<and> risks ''uv_risk'' = Some ''moderate''
      \<and> risks ''air_quality'' = Some ''moderate'' \<and> risks ''dehydration_risk'' = Some ''moderate''"
    using risk_levels [of 32 70 36 "''Rain''" "[]"] r by simp
      (elim exE conjE, intro exI conjI, assumption+)
qed

text \<open>
  The claim as first stated tests the description itself for \<open>clear\<close>. The source
  lowercases it first: the provider's \<open>Clear\<close> at 26 degrees gives a high \<open>uv_risk\<close>,
  although \<open>Clear\<close> does not contain \<open>clear\<close>.
\<close>

theorem uv_case_counterexample:
  "calculate_health_risks
     \<lparr>main = \<lparr>main_temp = 26, main_humidity = 50, main_feels_like = 26\<rparr>, weather = [''Clear'']\<rparr>
   = Inr [''heat_stress'' \<mapsto> ''low'', ''uv_risk'' \<mapsto> ''high'', ''air_quality'' \<mapsto> ''good'',
          ''dehydration_risk'' \<mapsto> ''moderate'']
   \<and> \<not> sublist ''clear'' ''Clear''"
  by (simp add: calculate_health_risks_def lower_def lower_char_Char sublist_code)

section \<open>The tip generator: claims\<close>

text \<open>
  The weather block appends to whatever precedes it, at most two tips. With that the
  list before the general wellness tips has an explicit form, in which no division
  fails: every average is taken of a non-empty list.
\<close>

lemma weather_tips_append: "weather_tips weather_data tips = tips @ weather_tips weather_data []"
  by (simp add: weather_tips_def Let_def split: option.splits)

lemma weather_tips_length: "length (weather_tips weather_data []) \<le> 2"
  by (simp add: weather_tips_def Let_def split: option.splits)


lemma personalized_shape:
  "personalized_tips recent_logs weather_data =
     Inr ((if recent_logs = [] then [generic_sleep_tip]
           else if sum_list (map sleep_hours (take 7 recent_logs))
                     / real (min (length recent_logs) 7) < 7 then [low_sleep_tip]
           else if sum_list (map sleep_hours (take 7 recent_logs))
                     / real (min (length recent_logs) 7) > 9 then [over_sleep_tip]
           else [])
        @ (if recent_logs = [] then [generic_activity_tip]
           else if sum_list (map (\<lambda>log. real_of_int (exercise_minutes log)) (take 7 recent_logs))
                     / real (min (length recent_logs) 7) < 30 then [low_activity_tip]
           else [])
        @ (if recent_logs = [] then [generic_hydration_tip]
           else if sum_list (map (\<lambda>log. real_of_int (water_glasses log)) (take 7 recent_logs))
                     / real (min (length recent_logs) 7) < 8 then [hydration_tip]
           else [])
        @ weather_tips weather_data [])"
proof (cases "recent_logs = []")
  case True
  then show ?thesis
    by (simp add: personalized_tips_def sleep_tips_def exercise_tips_def hydration_tips_def
        weather_tips_append [of _ "[_, _, _]"])
next
  case False
  then show ?thesis
    unfolding personalized_tips_def sleep_tips_def exercise_tips_def hydration_tips_def
    by (simp add: avg_over_nonempty weather_tips_append [of _ "_ @ _"]
        weather_tips_append [of _ "_ # _"])
qed

lemma personalized_total:
  "\<exists>personal. personalized_tips recent_logs weather_data = Inr personal \<and> length personal \<le> 5"
  using weather_tips_length [of weather_data]
  by (simp add: personalized_shape)

lemma fallback_of_personalized:
  assumes "personalized_tips recent_logs weather_data = Inr personal"
  shows "get_fallback_health_tips user profile recent_logs weather_data
           = Inr (personal @ take (5 - length personal) general_wellness_tips)"
proof -
  from personalized_total [of recent_logs weather_data] assms
  have "length personal \<le> 5" by simp
  then show ?thesis using assms by (simp add: get_fallback_health_tips_def)
qed





text \<open>
  Claim C4. For logs whose averages over the window are 5 hours of sleep, 10 minutes of
  exercise and 3 glasses of water, and weather with \<open>temp = 32\<close> and \<open>humidity = 85\<close>,
  \<open>get_fallback_health_tips\<close> returns exactly five tips in this order: the low-sleep
  tip, the low-activity tip, the hydration tip, the heat tip and the humidity tip.
  None of the three general wellness tips is among them.
\<close>

theorem five_personalized_example:
  assumes "avg_over 7 sleep_hours recent_logs = Inr 5"
    and "avg_over 7 (\<lambda>log. real_of_int (exercise_minutes log)) recent_logs = Inr 10"
    and "avg_over 7 (\<lambda>log. real_of_int (water_glasses log)) recent_logs = Inr 3"
  shows "get_fallback_health_tips user profile recent_logs
           (Some \<lparr>current = Some \<lparr>current_temp = Some 32, current_humidity = Some 85\<rparr>,
                  risk_indicators = indicators\<rparr>)
         = Inr [low_sleep_tip, low_activity_tip, hydration_tip, heat_tip, humidity_tip]
       \<and> set general_wellness_tips
           \<inter> set [low_sleep_tip, low_activity_tip, hydration_tip, heat_tip, humidity_tip] = {}"
proof -
  from assms(1) have ne: "recent_logs \<noteq> []"
    by (auto simp add: avg_over_empty)
  from assms have avgs:
    "sum_list (map sleep_hours (take 7 recent_logs)) / real (min (length recent_logs) 7) = 5"
    "sum_list (map (\<lambda>log. real_of_int (exercise_minutes log)) (take 7 recent_logs))
       / real (min (length recent_logs) 7) = 10"
    "sum_list (map (\<lambda>log. real_of_int (water_glasses log)) (take 7 recent_logs))
       / real (min (length recent_logs) 7) = 3"
    by (simp_all add: avg_over_nonempty [OF ne])
  have w: "weather_tips
             (Some \<lparr>current = Some \<lparr>current_temp = Some 32, current_humidity = Some 85\<rparr>,
                    risk_indicators = indicators\<rparr>) []
           = [heat_tip, humidity_tip]"
    by (simp add: weather_tips_def get_or_def)
  have p: "personalized_tips recent_logs
             (Some \<lparr>current = Some \<lparr>current_temp = Some 32, current_humidity = Some 85\<rparr>,
                    risk_indicators = indicators\<rparr>)
           = Inr [low_sleep_tip, low_activity_tip, hydration_tip, heat_tip, humidity_tip]"
    unfolding personalized_shape w avgs using ne by simp
  have d: "set general_wellness_tips
           \<inter> set [low_sleep_tip, low_activity_tip, hydration_tip, heat_tip, humidity_tip] = {}"
    by (simp add: low_sleep_tip_def low_activity_tip_def hydration_tip_def heat_tip_def
        humidity_tip_def general_wellness_tips_def)
  show ?thesis
    using fallback_of_personalized [OF p, of user profile] d by simp
qed

theorem five_personalized_example_witness:
  "get_fallback_health_tips () ()
     [example_log ''2025-06-02'' 6 20 2, example_log ''2025-06-01'' 4 0 4]
     (Some \<lparr>current = Some \<lparr>current_temp = Some 32, current_humidity = Some 85\<rparr>,
            risk_indicators = None\<rparr>)
   = Inr [low_sleep_tip, low_activity_tip, hydration_tip, heat_tip, humidity_tip]"
proof -
  have a: "avg_over 7 sleep_hours
             [example_log ''2025-06-02'' 6 20 2, example_log ''2025-06-01'' 4 0 4] = Inr 5"
    "avg_over 7 (\<lambda>log. real_of_int (exercise_minutes log))
             [example_log ''2025-06-02'' 6 20 2, example_log ''2025-06-01'' 4 0 4] = Inr 10"
    "avg_over 7 (\<lambda>log. real_of_int (water_glasses log))
             [example_log ''2025-06-02'' 6 20 2, example_log ''2025-06-01'' 4 0 4] = Inr 3"
    by (simp_all add: avg_over_def truediv_def example_log_def)
  from five_personalized_example [OF a, of "()" "()" None]
  show ?thesis by simp
qed




section \<open>The chat fallback: claims\<close>







section \<open>The AI gateway: claims\<close>








section \<open>Reading a user's logs: claims\<close>

text \<open>
  The sort of \<open>get_by_user_id\<close> keeps the entries, orders them by descending date and
  leaves entries of one date in the order in which they were stored.
\<close>

lemma mset_sorted_reverse: "mset (sorted_reverse key xs) = mset xs"
  by (simp add: sorted_reverse_def)

lemma sorted_reverse_descending:
  "sorted_wrt (\<lambda>a b. key b \<le> key a) (sorted_reverse key xs)"
proof -
  have "sorted (map key (sort_key key (rev xs)))" by (rule sorted_sort_key)
  then have "sorted_wrt (\<lambda>a b. key a \<le> key b) (sort_key key (rev xs))"
    by (simp add: sorted_wrt_map)
  then show ?thesis
    by (simp add: sorted_reverse_def sorted_wrt_rev)
qed

lemma sorted_reverse_stable:
  "filter (\<lambda>x. key x = k) (sorted_reverse key xs) = filter (\<lambda>x. key x = k) xs"
  by (simp add: sorted_reverse_def rev_filter [symmetric] sort_key_stable)

lemma sorted_wrt_take_drop:
  assumes "sorted_wrt P xs" and "a \<in> set (take n xs)" and "b \<in> set (drop n xs)"
  shows "P a b"
proof -
  from assms(1) have "sorted_wrt P (take n xs @ drop n xs)" by simp
  with assms(2,3) show ?thesis unfolding sorted_wrt_append by blast
qed

lemma get_by_user_id_unlimited:
  assumes "limit = None \<or> (\<exists>n. limit = Some n \<and> n \<le> 0)"
  shows "get_by_user_id db uid limit = sorted_reverse date (get_or [] (db uid))"
  using assms
  by (auto simp add: get_by_user_id_def get_or_def sorted_reverse_def split: option.splits)

lemma get_by_user_id_limited:
  assumes "0 < n"
  shows "get_by_user_id db uid (Some n) = take (nat n) (sorted_reverse date (get_or [] (db uid)))"
  using assms
  by (auto simp add: get_by_user_id_def get_or_def sorted_reverse_def split: option.splits)

lemma get_by_user_id_take:
  "\<exists>k. get_by_user_id db uid limit = take k (sorted_reverse date (get_or [] (db uid)))"
proof (cases "limit = None \<or> (\<exists>n. limit = Some n \<and> n \<le> 0)")
  case True
  then have "get_by_user_id db uid limit
      = take (length (sorted_reverse date (get_or [] (db uid)))) (sorted_reverse date (get_or [] (db uid)))"
    by (simp add: get_by_user_id_unlimited)
  then show ?thesis by blast
next
  case False
  then obtain n where "limit = Some n" "0 < n" by (cases limit) auto
  then show ?thesis using get_by_user_id_limited by blast
qed

text \<open>
  Claim C9, as amended. For every user and every limit, \<open>get_by_user_id\<close> returns
  entries of that user's logs ordered most recent first by date. For a positive limit
  the result has at most limit entries (all of them when the user has fewer), and no
  entry left out is more recent than an entry returned. With no limit, or a limit that
  is zero or negative, the result is all of the user's entries.
\<close>

theorem recent_logs_first:
  "sorted_wrt (\<lambda>a b. date b \<le> date a) (get_by_user_id db uid limit)
   \<and> mset (get_by_user_id db uid limit) \<subseteq># mset (get_or [] (db uid))
   \<and> (\<forall>n. limit = Some n \<and> 0 < n \<longrightarrow>
         int (length (get_by_user_id db uid limit)) \<le> n
       \<and> length (get_by_user_id db uid limit) = min (nat n) (length (get_or [] (db uid)))
       \<and> (\<forall>old \<in># mset (get_or [] (db uid)) - mset (get_by_user_id db uid limit).
            \<forall>kept \<in> set (get_by_user_id db uid limit). date old \<le> date kept))
   \<and> (limit = None \<or> (\<exists>n. limit = Some n \<and> n \<le> 0) \<longrightarrow>
         mset (get_by_user_id db uid limit) = mset (get_or [] (db uid)))"
proof -
  define stored where "stored = get_or [] (db uid)"
  define full where "full = sorted_reverse date stored"
  have m: "mset full = mset stored" by (simp add: full_def mset_sorted_reverse)
  have s: "sorted_wrt (\<lambda>a b. date b \<le> date a) full"
    unfolding full_def by (rule sorted_reverse_descending)
  obtain k where k: "get_by_user_id db uid limit = take k full"
    using get_by_user_id_take [of db uid limit] unfolding stored_def full_def by blast
  have 1: "sorted_wrt (\<lambda>a b. date b \<le> date a) (get_by_user_id db uid limit)"
    unfolding k using s by (rule sorted_wrt_take)
  have "mset (take k full) \<subseteq># mset full"
    by (metis append_take_drop_id mset_append mset_subset_eq_add_left)
  then have 2: "mset (get_by_user_id db uid limit) \<subseteq># mset stored"
    unfolding k m .
  have 3: "int (length (get_by_user_id db uid limit)) \<le> n
       \<and> length (get_by_user_id db uid limit) = min (nat n) (length stored)
       \<and> (\<forall>old \<in># mset stored - mset (get_by_user_id db uid limit).
            \<forall>kept \<in> set (get_by_user_id db uid limit). date old \<le> date kept)"
    if "limit = Some n \<and> 0 < n" for n
  proof -
    from that have g: "get_by_user_id db uid limit = take (nat n) full"
      by (simp add: get_by_user_id_limited full_def stored_def)
    have len: "length full = length stored"
      using m by (rule mset_eq_length)
    have "mset stored - mset (take (nat n) full) = mset (drop (nat n) full)"
      by (metis m add_diff_cancel_left' append_take_drop_id mset_append)
    then have rest: "set_mset (mset stored - mset (take (nat n) full)) = set (drop (nat n) full)"
      by simp
    have a: "int (length (take (nat n) full)) \<le> n" using that by auto
    have b: "length (take (nat n) full) = min (nat n) (length stored)"
      by (simp add: len min.commute)
    have c: "\<forall>old \<in># mset stored - mset (take (nat n) full).
            \<forall>kept \<in> set (take (nat n) full). date old \<le> date kept"
      unfolding rest using sorted_wrt_take_drop [OF s] by blast
    from a b c show ?thesis unfolding g by (intro conjI)
  qed
  have 4: "mset (get_by_user_id db uid limit) = mset stored"
    if "limit = None \<or> (\<exists>n. limit = Some n \<and> n \<le> 0)"
    using that m by (simp add: get_by_user_id_unlimited full_def stored_def)
  show ?thesis
    unfolding stored_def [symmetric]
    by (rule conjI [OF 1], rule conjI [OF 2], rule conjI)
      ((intro allI impI, erule 3), (intro impI, erule 4))
qed

theorem recent_logs_first_witness:
  "get_by_user_id
     [1 \<mapsto> [example_log ''2025-06-01'' 7 30 8, example_log ''2025-06-02'' 6 20 5]] 1 (Some 1)
   = [example_log ''2025-06-02'' 6 20 5]
   \<and> int (length (get_by_user_id
        [1 \<mapsto> [example_log ''2025-06-01'' 7 30 8, example_log ''2025-06-02'' 6 20 5]] 1 (Some 1)))
      \<le> 1
   \<and> mset (get_by_user_id
        [1 \<mapsto> [example_log ''2025-06-01'' 7 30 8, example_log ''2025-06-02'' 6 20 5]] 1 None)
      = mset [example_log ''2025-06-01'' 7 30 8, example_log ''2025-06-02'' 6 20 5]"
proof -
  have a: "get_by_user_id
     [1 \<mapsto> [example_log ''2025-06-01'' 7 30 8, example_log ''2025-06-02'' 6 20 5]] 1 (Some 1)
   = [example_log ''2025-06-02'' 6 20 5]"
    by (simp add: get_by_user_id_def sorted_reverse_def example_log_def)
  have b: "int (length (get_by_user_id
        [1 \<mapsto> [example_log ''2025-06-01'' 7 30 8, example_log ''2025-06-02'' 6 20 5]] 1 (Some 1)))
      \<le> 1"
    using recent_logs_first [of
        "[1 \<mapsto> [example_log ''2025-06-01'' 7 30 8, example_log ''2025-06-02'' 6 20 5]]" 1 "Some 1"]
    by simp
  have c: "mset (get_by_user_id
        [1 \<mapsto> [example_log ''2025-06-01'' 7 30 8, example_log ''2025-06-02'' 6 20 5]] 1 None)
      = mset [example_log ''2025-06-01'' 7 30 8, example_log ''2025-06-02'' 6 20 5]"
    using recent_logs_first [of
        "[1 \<mapsto> [example_log ''2025-06-01'' 7 30 8, example_log ''2025-06-02'' 6 20 5]]" 1 None]
    by (simp add: get_or_def)
  from a b c show ?thesis by (intro conjI)
qed

text \<open>
  The claim as first stated bounds the length by the limit for every limit. A limit of
  zero is not a bound: the guard \<open>if limit and limit > 0\<close> fails and both stored entries
  come back.
\<close>

theorem zero_limit_counterexample:
  "get_by_user_id
     [1 \<mapsto> [example_log ''2025-06-01'' 7 30 8, example_log ''2025-06-02'' 6 20 5]] 1 (Some 0)
   = [example_log ''2025-06-02'' 6 20 5, example_log ''2025-06-01'' 7 30 8]
   \<and> \<not> int (length [example_log ''2025-06-02'' 6 20 5, example_log ''2025-06-01'' 7 30 8]) \<le> 0"
  by (simp add: get_by_user_id_def sorted_reverse_def example_log_def)

end
